theory Spec2Isabelle
  imports Main "HOL-Library.Sublist"
begin

section \<open>Go values used by the plugin\<close>

text \<open>
  The plugin (\<^verbatim>\<open>src/main/plugin.go\<close>) is a Go program. Go strings are byte
  sequences, modelled as \<^typ>\<open>string\<close>. A Go \<^verbatim>\<open>error\<close> is \<^verbatim>\<open>nil\<close> or carries a
  message: \<open>go_error option\<close>. A function returning \<^verbatim>\<open>(T, error)\<close> returns a pair; the
  plugin discards several of these errors with \<^verbatim>\<open>_\<close> and goes on with the value, so the
  pair, not a sum, is what the code sees. A run-time panic ends the call: functions that
  can panic return \<open>panic + 'a\<close>.
\<close>

type_synonym go_error = string

datatype panic = NilPointerDereference | SliceBoundsOutOfRange

subsection \<open>Package strings\<close>

definition HasSuffix :: "string \<Rightarrow> string \<Rightarrow> bool" where
  "HasSuffix s suf = suffix suf s"

definition HasPrefix :: "string \<Rightarrow> string \<Rightarrow> bool" where
  "HasPrefix s pre = prefix pre s"

text \<open>\<^verbatim>\<open>strings.Index(s, substr)\<close>: the index of the first occurrence, or -1.\<close>

fun Index_from :: "int \<Rightarrow> string \<Rightarrow> string \<Rightarrow> int" where
  "Index_from i [] substr = (if substr = [] then i else - 1)"
| "Index_from i (c # s) substr =
     (if prefix substr (c # s) then i else Index_from (i + 1) s substr)"

definition Index :: "string \<Rightarrow> string \<Rightarrow> int" where
  "Index s substr = Index_from 0 s substr"

fun Join :: "string list \<Rightarrow> string \<Rightarrow> string" where
  "Join [] sep = []"
| "Join [x] sep = x"
| "Join (x # y # ys) sep = x @ sep @ Join (y # ys) sep"

definition len :: "'a list \<Rightarrow> int" where
  "len s = int (length s)"

text \<open>
  The slice expression \<^verbatim>\<open>s[lo:hi]\<close>. Go panics unless \<open>0 \<le> lo \<le> hi \<le> len(s)\<close>;
  \<^verbatim>\<open>s[lo:]\<close> is \<^verbatim>\<open>s[lo:len(s)]\<close>.
\<close>

definition slice :: "string \<Rightarrow> int \<Rightarrow> int \<Rightarrow> panic + string" where
  "slice s lo hi =
     (if 0 \<le> lo \<and> lo \<le> hi \<and> hi \<le> len s
      then Inr (take (nat hi - nat lo) (drop (nat lo) s))
      else Inl SliceBoundsOutOfRange)"

subsection \<open>Maps\<close>

text \<open>
  \<^verbatim>\<open>map[string]bool\<close>. Indexing a missing key yields the zero value \<^verbatim>\<open>false\<close>;
  \<^verbatim>\<open>len\<close> counts the keys. \<^verbatim>\<open>for k := range m\<close> visits every key once, in an order the
  language leaves open: \<open>range_order m ks\<close> says that \<open>ks\<close> is such an order.
\<close>

type_synonym gomap = "string \<rightharpoonup> bool"

definition index_map :: "gomap \<Rightarrow> string \<Rightarrow> bool" where
  "index_map m k = (case m k of None \<Rightarrow> False | Some b \<Rightarrow> b)"

definition len_map :: "gomap \<Rightarrow> int" where
  "len_map m = int (card (dom m))"

definition range_order :: "gomap \<Rightarrow> string list \<Rightarrow> bool" where
  "range_order m ks = (distinct ks \<and> set ks = dom m)"

section \<open>Data of the plugin and of its libraries\<close>

text \<open>
  \<^verbatim>\<open>url.URL\<close>, \<^verbatim>\<open>container.Config\<close>, \<^verbatim>\<open>authorization.Request\<close> and
  \<^verbatim>\<open>authorization.Response\<close> are library structs; the records keep the fields the plugin
  reads or writes. \<^verbatim>\<open>url.Values\<close> is \<^verbatim>\<open>map[string][]string\<close>.
\<close>

record URL =
  Path :: string
  RawQuery :: string

record Config =
  Image :: string

record Request =
  RequestMethod :: string
  RequestURI :: string
  RequestBody :: string

record Response =
  Allow :: bool
  Msg :: string
  Err :: string

type_synonym Values = "string \<rightharpoonup> string list"

definition Get :: "Values \<Rightarrow> string \<Rightarrow> string" where
  "Get v key = (case v key of None \<Rightarrow> [] | Some [] \<Rightarrow> [] | Some (x # _) \<Rightarrow> x)"

datatype dockerclient = DockerClient string

record ImgAuthZPlugin =
  client :: "dockerclient option"
  authorizedRegistries :: gomap
  numAuthorizedRegistries :: int
  authRegistriesAsString :: string
  authorizedImages :: gomap
  numAuthorizedImages :: int
  authImagesAsString :: string

text \<open>
  The library functions the plugin calls are not part of the repository. They are the
  fields of an environment, so that every general theorem below holds whatever these
  functions return:
  \<^item> \<open>QueryUnescape\<close> is \<^verbatim>\<open>url.QueryUnescape\<close>;
  \<^item> \<open>ParseRequestURI\<close> is \<^verbatim>\<open>url.ParseRequestURI\<close>; its first component is the
    pointer \<^verbatim>\<open>*url.URL\<close>, \<open>None\<close> for \<^verbatim>\<open>nil\<close>;
  \<^item> \<open>Query\<close> is the method \<^verbatim>\<open>(*URL).Query\<close>;
  \<^item> \<open>Unmarshal\<close> is \<^verbatim>\<open>json.Unmarshal(body, &config)\<close>: it takes the struct to fill
    and returns it, filled as far as decoding went;
  \<^item> \<open>NewClient\<close> is \<^verbatim>\<open>dockerclient.NewClient(host, dockerapi.DefaultVersion, nil, nil)\<close>;
    its first component is the pointer \<^verbatim>\<open>*dockerclient.Client\<close>.
\<close>

record stdlib =
  QueryUnescape :: "string \<Rightarrow> string \<times> go_error option"
  ParseRequestURI :: "string \<Rightarrow> URL option \<times> go_error option"
  Query :: "URL \<Rightarrow> Values"
  Unmarshal :: "string \<Rightarrow> Config \<Rightarrow> Config \<times> go_error option"
  NewClient :: "string \<Rightarrow> dockerclient option \<times> go_error option"

text \<open>
  \<^verbatim>\<open>log.Println\<close> appends a line to the process log. A line is kept as the operands
  passed to \<^verbatim>\<open>Println\<close>; \<open>U u\<close> stands for the text \<^verbatim>\<open>u.String()\<close>. The time stamp
  the logger puts in front is left out.
\<close>

datatype logarg = S string | U URL

type_synonym log = "logarg list list"

definition Println :: "logarg list \<Rightarrow> log \<Rightarrow> log" where
  "Println args lg = lg @ [args]"

section \<open>The plugin\<close>

text \<open>
  \<^verbatim>\<open>authRegistries\<close> and \<^verbatim>\<open>authImages\<close> (lines 36-51) collect the keys of a map with
  \<^verbatim>\<open>range\<close> and join them with \<^verbatim>\<open>", "\<close>. The argument is the sequence of keys the
  \<^verbatim>\<open>range\<close> loop yields.
\<close>

definition authRegistries :: "string list \<Rightarrow> string" where
  "authRegistries ks = (let keys = fold (\<lambda>k keys. keys @ [k]) ks [] in Join keys '', '')"

definition authImages :: "string list \<Rightarrow> string" where
  "authImages ks = (let keys = fold (\<lambda>k keys. keys @ [k]) ks [] in Join keys '', '')"

text \<open>
  \<^verbatim>\<open>newPlugin\<close> (lines 54-69). \<open>kr\<close> and \<open>ki\<close> are the orders in which the two
  \<^verbatim>\<open>range\<close> loops visit the keys of \<open>registries\<close> and \<open>images\<close>.
\<close>

definition newPlugin ::
  "stdlib \<Rightarrow> string \<Rightarrow> gomap \<Rightarrow> gomap \<Rightarrow> string list \<Rightarrow> string list
    \<Rightarrow> ImgAuthZPlugin option \<times> go_error option" where
  "newPlugin L dockerHost registries images kr ki =
     (case NewClient L dockerHost of
        (_, Some err) \<Rightarrow> (None, Some err)
      | (c, None) \<Rightarrow>
          (Some \<lparr>client = c,
                 authorizedRegistries = registries,
                 numAuthorizedRegistries = len_map registries,
                 authRegistriesAsString = authRegistries kr,
                 authorizedImages = images,
                 numAuthorizedImages = len_map images,
                 authImagesAsString = authImages ki\<rparr>, None))"

text \<open>
  \<^verbatim>\<open>main\<close> (second file, lines 205-223) turns the values of the repeatable flags
  \<^verbatim>\<open>-registry\<close> and \<^verbatim>\<open>-image\<close> into the two maps, every key mapped to \<^verbatim>\<open>true\<close>, and
  builds the plugin from them. \<open>main_map\<close> is either of the two loops (lines 206-210 and
  214-218). The type \<^verbatim>\<open>stringslice\<close> of the flag variables is declared outside the two
  files; \<^verbatim>\<open>main\<close> only ranges over it, so the flag values are taken as a list of strings.
\<close>

definition main_map :: "string list \<Rightarrow> gomap" where
  "main_map flags = fold (\<lambda>k m. m(k \<mapsto> True)) flags Map.empty"

definition main_newPlugin ::
  "stdlib \<Rightarrow> string \<Rightarrow> string list \<Rightarrow> string list \<Rightarrow> string list \<Rightarrow> string list
    \<Rightarrow> ImgAuthZPlugin option \<times> go_error option" where
  "main_newPlugin L flDockerHost registryFlags imageFlags kr ki =
     (let registries = main_map registryFlags;
          images = main_map imageFlags
      in newPlugin L flDockerHost registries images kr ki)"

definition hasAuthorizedRegistries :: "ImgAuthZPlugin \<Rightarrow> bool" where
  "hasAuthorizedRegistries plugin = (numAuthorizedRegistries plugin > 0)"

definition hasAuthorizedImages :: "ImgAuthZPlugin \<Rightarrow> bool" where
  "hasAuthorizedImages plugin = (numAuthorizedImages plugin > 0)"

text \<open>
  \<^verbatim>\<open>processRequest\<close> (lines 86-116). \<open>candidateImagePath\<close> is the value of the variable
  \<^verbatim>\<open>imagePath\<close> after the two suffix tests (lines 89-102); the tests are two separate
  \<^verbatim>\<open>if\<close> statements, the second overwriting the first. \<open>reqURL\<close> is a pointer: reading
  \<^verbatim>\<open>reqURL.Path\<close> through \<^verbatim>\<open>nil\<close> panics.
\<close>

definition candidateImagePath :: "stdlib \<Rightarrow> Request \<Rightarrow> URL \<Rightarrow> string" where
  "candidateImagePath L req u =
     (let imagePath = '''';
          imagePath =
            (if HasSuffix (Path u) ''/containers/create''
             then Image (fst (Unmarshal L (RequestBody req) \<lparr>Image = ''''\<rparr>))
             else imagePath);
          imagePath =
            (if HasSuffix (Path u) ''/images/create''
             then Get (Query L u) ''fromImage''
             else imagePath)
      in imagePath)"

definition processRequest ::
  "stdlib \<Rightarrow> Request \<Rightarrow> URL option \<Rightarrow> panic + (string \<times> string \<times> bool)" where
  "processRequest L req reqURL =
     (case reqURL of
        None \<Rightarrow> Inl NilPointerDereference
      | Some u \<Rightarrow>
          (let registry = '''';
               image = '''';
               imagePath = candidateImagePath L req u
           in if len imagePath > 0
              then (let registry = ''library'';
                        idx = Index imagePath ''/''
                    in if idx \<noteq> - 1
                       then (case slice imagePath 0 idx of
                               Inl p \<Rightarrow> Inl p
                             | Inr registry \<Rightarrow>
                                 (case slice imagePath idx (len imagePath) of
                                    Inl p \<Rightarrow> Inl p
                                  | Inr image \<Rightarrow> Inr (registry, image, True)))
                       else Inr (registry, image, True))
              else Inr (registry, image, False)))"

text \<open>
  \<^verbatim>\<open>AuthZReq\<close> (lines 122-162). \<open>requestURL\<close> is lines 124-125: both errors are
  discarded, and \<^verbatim>\<open>reqURL\<close> is whatever pointer \<^verbatim>\<open>ParseRequestURI\<close> returned. The log
  is threaded through; \<^verbatim>\<open>reqURL.String()\<close> reads through the pointer too.
\<close>

definition requestURL :: "stdlib \<Rightarrow> Request \<Rightarrow> URL option" where
  "requestURL L req =
     (let reqURI = fst (QueryUnescape L (RequestURI req));
          reqURL = fst (ParseRequestURI L reqURI)
      in reqURL)"

definition AuthZReq ::
  "stdlib \<Rightarrow> ImgAuthZPlugin \<Rightarrow> Request \<Rightarrow> log \<Rightarrow> (panic + Response) \<times> log" where
  "AuthZReq L plugin req lg =
     (let reqURL = requestURL L req in
      case processRequest L req reqURL of
        Inl p \<Rightarrow> (Inl p, lg)
      | Inr (requestedRegistry, requestedImage, isRegistryCommand) \<Rightarrow>
          (case reqURL of
             None \<Rightarrow> (Inl NilPointerDereference, lg)
           | Some u \<Rightarrow>
               if isRegistryCommand = False
               then (Inr \<lparr>Allow = True, Msg = '''', Err = ''''\<rparr>,
                     Println [S ''[ALLOWED] Not a registry command:'',
                              S (RequestMethod req), U u] lg)
               else if hasAuthorizedRegistries plugin = False
               then (Inr \<lparr>Allow = False, Msg = ''No authorized registries configured'',
                          Err = ''''\<rparr>,
                     Println [S ''[DENIED] No authorized registries'',
                              S (RequestMethod req), U u] lg)
               else if hasAuthorizedImages plugin = False
               then (Inr \<lparr>Allow = False, Msg = ''No authorized images configured'',
                          Err = ''''\<rparr>,
                     Println [S ''[DENIED] No authorized images'',
                              S (RequestMethod req), U u] lg)
               else (let registryAuthorized =
                           index_map (authorizedRegistries plugin) requestedRegistry;
                         imageAuthorized =
                           index_map (authorizedImages plugin) requestedImage
                     in if registryAuthorized \<and> imageAuthorized
                        then (Inr \<lparr>Allow = True, Msg = '''', Err = ''''\<rparr>,
                              Println [S (''[ALLOWED] Registry:'' @ requestedRegistry
                                          @ '', Image: '' @ requestedImage),
                                       S (RequestMethod req), U u] lg)
                        else (Inr \<lparr>Allow = False,
                                   Msg = ''You can only use docker images from the following authorized registries: ''
                                         @ authRegistriesAsString plugin,
                                   Err = ''''\<rparr>,
                              Println [S ''[DENIED] Registry:'', S requestedRegistry,
                                       S (RequestMethod req), U u] lg))))"

text \<open>\<^verbatim>\<open>AuthZRes\<close> (lines 166-169).\<close>

definition AuthZRes :: "ImgAuthZPlugin \<Rightarrow> Request \<Rightarrow> Response" where
  "AuthZRes plugin req = \<lparr>Allow = True, Msg = '''', Err = ''''\<rparr>"

section \<open>A library environment for the worked examples\<close>

text \<open>
  The general theorems hold for every environment, hence for everything the library
  functions can return. The examples need one concrete environment. \<open>go_stdlib\<close>
  follows Go's packages on the inputs the examples use: request targets in origin form
  (a leading \<^verbatim>\<open>/\<close>), as the Docker daemon forwards them, with an empty body.
\<close>

subsection \<open>Percent-decoding\<close>

definition ishex :: "char \<Rightarrow> bool" where
  "ishex c =
     (let b = (of_char c :: nat)
      in (48 \<le> b \<and> b \<le> 57) \<or> (97 \<le> b \<and> b \<le> 102) \<or> (65 \<le> b \<and> b \<le> 70))"

definition unhex :: "char \<Rightarrow> nat" where
  "unhex c =
     (let b = (of_char c :: nat)
      in if 48 \<le> b \<and> b \<le> 57 then b - 48
         else if 97 \<le> b \<and> b \<le> 102 then b - 97 + 10
         else if 65 \<le> b \<and> b \<le> 70 then b - 65 + 10
         else 0)"

text \<open>
  \<^verbatim>\<open>unescape(s, mode)\<close> of net/url for the modes \<^verbatim>\<open>encodeQueryComponent\<close>
  (\<open>plusIsSpace = True\<close>: a \<^verbatim>\<open>+\<close> decodes to a space) and \<^verbatim>\<open>encodePath\<close> (\<open>plusIsSpace = False\<close>).
  A \<^verbatim>\<open>%\<close> not followed by two hex digits is an error, \<open>None\<close>.
\<close>

fun unescape :: "bool \<Rightarrow> string \<Rightarrow> string option" where
  "unescape plusIsSpace [] = Some []"
| "unescape plusIsSpace (c # s) =
     (if c = CHR ''%''
      then (case s of
              h1 # h2 # rest \<Rightarrow>
                (if ishex h1 \<and> ishex h2
                 then (case unescape plusIsSpace rest of
                         None \<Rightarrow> None
                       | Some t \<Rightarrow> Some (char_of (unhex h1 * 16 + unhex h2) # t))
                 else None)
            | _ \<Rightarrow> None)
      else (case unescape plusIsSpace s of
              None \<Rightarrow> None
            | Some t \<Rightarrow> Some ((if c = CHR ''+'' \<and> plusIsSpace then CHR '' '' else c) # t)))"

text \<open>\<^verbatim>\<open>url.QueryUnescape\<close>: on error the string returned is empty.\<close>

definition go_QueryUnescape :: "string \<Rightarrow> string \<times> go_error option" where
  "go_QueryUnescape s =
     (case unescape True s of
        None \<Rightarrow> ('''', Some ''invalid URL escape'')
      | Some t \<Rightarrow> (t, None))"

subsection \<open>Parsing a request target\<close>

definition stringContainsCTLByte :: "string \<Rightarrow> bool" where
  "stringContainsCTLByte s =
     list_ex (\<lambda>c. (of_char c :: nat) < 32 \<or> (of_char c :: nat) = 127) s"

definition isAlpha :: "char \<Rightarrow> bool" where
  "isAlpha c =
     (let b = (of_char c :: nat) in (97 \<le> b \<and> b \<le> 122) \<or> (65 \<le> b \<and> b \<le> 90))"

definition isSchemeChar :: "char \<Rightarrow> bool" where
  "isSchemeChar c =
     (let b = (of_char c :: nat)
      in (48 \<le> b \<and> b \<le> 57) \<or> c = CHR ''+'' \<or> c = CHR ''-'' \<or> c = CHR ''.'')"

text \<open>\<^verbatim>\<open>getScheme\<close>: the loop over the bytes of \<open>rawURL\<close>; \<open>i\<close> is the loop index.\<close>

fun getScheme_loop :: "nat \<Rightarrow> string \<Rightarrow> string \<Rightarrow> (string \<times> string) \<times> go_error option" where
  "getScheme_loop i rawURL [] = (('''', rawURL), None)"
| "getScheme_loop i rawURL (c # cs) =
     (if isAlpha c then getScheme_loop (i + 1) rawURL cs
      else if isSchemeChar c
      then (if i = 0 then (('''', rawURL), None) else getScheme_loop (i + 1) rawURL cs)
      else if c = CHR '':''
      then (if i = 0 then (('''', ''''), Some ''missing protocol scheme'')
            else ((take i rawURL, drop (i + 1) rawURL), None))
      else (('''', rawURL), None))"

definition getScheme :: "string \<Rightarrow> (string \<times> string) \<times> go_error option" where
  "getScheme rawURL = getScheme_loop 0 rawURL rawURL"

text \<open>\<^verbatim>\<open>strings.Cut(s, sep)\<close> for a one-byte separator: before, after, found.\<close>

fun Cut :: "string \<Rightarrow> char \<Rightarrow> string \<times> string \<times> bool" where
  "Cut [] sep = ([], [], False)"
| "Cut (c # s) sep =
     (if c = sep then ([], s, True)
      else (case Cut s sep of (before, after, found) \<Rightarrow> (c # before, after, found)))"

text \<open>
  \<^verbatim>\<open>url.ParseRequestURI\<close>, that is \<^verbatim>\<open>parse(rawURL, true)\<close>: control bytes and the empty
  string are errors, \<^verbatim>\<open>*\<close> is a path, the scheme is split off, the query is cut at the
  first \<^verbatim>\<open>?\<close>, a target with neither scheme nor leading \<^verbatim>\<open>/\<close> is an error, and the
  path is percent-decoded. On every error the pointer returned is \<^verbatim>\<open>nil\<close>. For a target
  with a scheme and an authority (\<^verbatim>\<open>scheme://host/path\<close>) Go also validates the
  authority; that validation is not modelled, the authority is skipped.
\<close>

definition setPath :: "string \<Rightarrow> string \<Rightarrow> URL option \<times> go_error option" where
  "setPath rawQuery p =
     (case unescape False p of
        None \<Rightarrow> (None, Some ''invalid URL escape'')
      | Some path \<Rightarrow> (Some \<lparr>Path = path, RawQuery = rawQuery\<rparr>, None))"

definition go_ParseRequestURI :: "string \<Rightarrow> URL option \<times> go_error option" where
  "go_ParseRequestURI rawURL =
     (if stringContainsCTLByte rawURL
      then (None, Some ''net/url: invalid control character in URL'')
      else if rawURL = '''' then (None, Some ''empty url'')
      else if rawURL = ''*'' then (Some \<lparr>Path = ''*'', RawQuery = ''''\<rparr>, None)
      else (case getScheme rawURL of
              (_, Some err) \<Rightarrow> (None, Some err)
            | ((scheme, rest0), None) \<Rightarrow>
                (case (if HasSuffix rest0 ''?'' \<and> count_list rest0 CHR ''?'' = 1
                       then (butlast rest0, '''', True)
                       else Cut rest0 CHR ''?'') of
                   (rest, rawQuery, _) \<Rightarrow>
                     if HasPrefix rest ''/''
                     then (if scheme = '''' then setPath rawQuery rest
                           else if HasPrefix rest ''//''
                           then setPath rawQuery (dropWhile (\<lambda>c. c \<noteq> CHR ''/'') (drop 2 rest))
                           else setPath rawQuery rest)
                     else if scheme = '''' then (None, Some ''invalid URI for request'')
                     else (Some \<lparr>Path = '''', RawQuery = rawQuery\<rparr>, None))))"

subsection \<open>Query parameters\<close>

text \<open>
  \<^verbatim>\<open>parseQuery\<close> (Go 1.17 and later): the query is cut at each \<^verbatim>\<open>&\<close>; a piece with a
  \<^verbatim>\<open>;\<close>, an empty piece, and a piece whose key or value does not decode are skipped;
  the others append their value under their key. \<^verbatim>\<open>(*URL).Query\<close> drops the error.
\<close>

lemma Cut_length: "Cut s sep = (b, a, f) \<Longrightarrow> length a \<le> length s"
  by (induction s arbitrary: b a f) (auto split: if_splits prod.splits)

lemma Cut_shorter: "(b, a, f) = Cut s sep \<Longrightarrow> s \<noteq> [] \<Longrightarrow> length a < length s"
  by (cases s) (auto split: if_splits prod.splits dest: Cut_length)

function parseQuery :: "Values \<Rightarrow> string \<Rightarrow> Values" where
  "parseQuery m query =
     (if query = [] then m
      else (case Cut query CHR ''&'' of
              (key, query', _) \<Rightarrow>
                if CHR '';'' \<in> set key then parseQuery m query'
                else if key = [] then parseQuery m query'
                else (case Cut key CHR ''='' of
                        (k, v, _) \<Rightarrow>
                          (case go_QueryUnescape k of
                             (_, Some err) \<Rightarrow> parseQuery m query'
                           | (k', None) \<Rightarrow>
                               (case go_QueryUnescape v of
                                  (_, Some err) \<Rightarrow> parseQuery m query'
                                | (v', None) \<Rightarrow>
                                    parseQuery
                                      (m(k' \<mapsto> (case m k' of None \<Rightarrow> [] | Some vs \<Rightarrow> vs) @ [v']))
                                      query')))))"
  by pat_completeness auto
termination
  by (relation "measure (\<lambda>(m, query). length query)") (auto dest: Cut_shorter)

definition go_Query :: "URL \<Rightarrow> Values" where
  "go_Query u = parseQuery Map.empty (RawQuery u)"

subsection \<open>The environment\<close>

text \<open>
  \<^verbatim>\<open>json.Unmarshal\<close> and \<^verbatim>\<open>dockerclient.NewClient\<close> are fixed at what they do on the
  inputs of the examples and are not models of the libraries beyond them. The examples
  send an empty body, which is not a JSON text: \<^verbatim>\<open>Unmarshal\<close> reports an error and
  leaves the struct as it was. \<open>go_Unmarshal\<close> does so for every body, so a body that is a
  JSON text, which the library would decode into the struct, is outside this environment.
  The examples use the Docker host \<^verbatim>\<open>unix:///var/run/docker.sock\<close>, for which
  \<^verbatim>\<open>NewClient\<close> returns a client; a host without \<^verbatim>\<open>://\<close> is refused. The further checks
  of the library on the address (a \<^verbatim>\<open>tcp\<close> address must parse as a URL) are not
  modelled. No general theorem depends on either function.
\<close>

definition go_Unmarshal :: "string \<Rightarrow> Config \<Rightarrow> Config \<times> go_error option" where
  "go_Unmarshal body config = (config, Some ''unexpected end of JSON input'')"

fun Contains :: "string \<Rightarrow> string \<Rightarrow> bool" where
  "Contains s substr = (Index s substr \<noteq> - 1)"

definition go_NewClient :: "string \<Rightarrow> dockerclient option \<times> go_error option" where
  "go_NewClient host =
     (if Contains host ''://'' then (Some (DockerClient host), None)
      else (None, Some ''unable to parse docker host''))"

definition go_stdlib :: stdlib where
  "go_stdlib =
     \<lparr>QueryUnescape = go_QueryUnescape,
      ParseRequestURI = go_ParseRequestURI,
      Query = go_Query,
      Unmarshal = go_Unmarshal,
      NewClient = go_NewClient\<rparr>"


subsection \<open>Values of the worked examples\<close>

text \<open>
  The default Docker host of \<^verbatim>\<open>main\<close>, a pull request with a given request target, the
  URL such a target parses to, and the plugin \<^verbatim>\<open>main\<close> builds from the flag values
  \<open>rs\<close> and \<open>ims\<close> when the two \<^verbatim>\<open>range\<close> loops happen to visit the keys in flag order.
\<close>

definition docker_sock :: string where
  "docker_sock = ''unix:///var/run/docker.sock''"

definition pull_request :: "string \<Rightarrow> Request" where
  "pull_request uri = \<lparr>RequestMethod = ''POST'', RequestURI = uri, RequestBody = ''''\<rparr>"

definition create_url :: "string \<Rightarrow> URL" where
  "create_url q = \<lparr>Path = ''/v1.40/images/create'', RawQuery = q\<rparr>"

definition list_request :: Request where
  "list_request =
     \<lparr>RequestMethod = ''GET'', RequestURI = ''/v1.40/containers/list'', RequestBody = ''''\<rparr>"

definition example_plugin :: "string list \<Rightarrow> string list \<Rightarrow> ImgAuthZPlugin" where
  "example_plugin rs ims =
     \<lparr>client = Some (DockerClient docker_sock),
      authorizedRegistries = main_map rs,
      numAuthorizedRegistries = len_map (main_map rs),
      authRegistriesAsString = authRegistries rs,
      authorizedImages = main_map ims,
      numAuthorizedImages = len_map (main_map ims),
      authImagesAsString = authImages ims\<rparr>"

text \<open>
  The same plugin when the \<^verbatim>\<open>range\<close> loops visit the keys in the orders \<open>kr\<close> and \<open>ki\<close>,
  and a request for the container list whose query holds a broken percent escape.
\<close>

definition ranged_plugin ::
  "string list \<Rightarrow> string list \<Rightarrow> string list \<Rightarrow> string list \<Rightarrow> ImgAuthZPlugin" where
  "ranged_plugin rs ims kr ki =
     \<lparr>client = Some (DockerClient docker_sock),
      authorizedRegistries = main_map rs,
      numAuthorizedRegistries = len_map (main_map rs),
      authRegistriesAsString = authRegistries kr,
      authorizedImages = main_map ims,
      numAuthorizedImages = len_map (main_map ims),
      authImagesAsString = authImages ki\<rparr>"

definition filters_request :: Request where
  "filters_request =
     \<lparr>RequestMethod = ''GET'', RequestURI = ''/v1.40/containers/json?filters=%zz'',
      RequestBody = ''''\<rparr>"

section \<open>Facts about the strings and maps\<close>

text \<open>
  \<^verbatim>\<open>strings.Join\<close> in terms of the list library: the first element, then every other
  element with the separator in front.
\<close>

lemma Join_concat: "Join (k # ks) sep = k @ concat (map (\<lambda>x. sep @ x) ks)"
  by (induction ks arbitrary: k) auto

lemma Index_from_absent:
  "CHR ''/'' \<notin> set s \<Longrightarrow> Index_from i s ''/'' = - 1"
  by (induction s arbitrary: i) auto

lemma Index_from_first:
  "CHR ''/'' \<notin> set a \<Longrightarrow> Index_from i (a @ CHR ''/'' # b) ''/'' = i + int (length a)"
  by (induction a arbitrary: i) auto

lemma Index_absent: "CHR ''/'' \<notin> set s \<Longrightarrow> Index s ''/'' = - 1"
  by (simp add: Index_def Index_from_absent)

lemma Index_first:
  "CHR ''/'' \<notin> set a \<Longrightarrow> Index (a @ CHR ''/'' # b) ''/'' = int (length a)"
  by (simp add: Index_def Index_from_first)

lemma slice_prefix: "slice (a @ b) 0 (int (length a)) = Inr a"
  by (simp add: slice_def len_def)

lemma slice_rest: "slice (a @ b) (int (length a)) (len (a @ b)) = Inr b"
  by (simp add: slice_def len_def)

lemma fold_upd_True:
  "fold (\<lambda>k m. m(k \<mapsto> True)) ks m0 k = (if k \<in> set ks then Some True else m0 k)"
  by (induction ks arbitrary: m0) auto

lemma main_map_apply: "main_map ks k = (if k \<in> set ks then Some True else None)"
  by (simp add: main_map_def fold_upd_True)

lemma dom_main_map: "dom (main_map ks) = set ks"
  by (auto simp: main_map_apply dom_def)

lemma index_main_map: "index_map (main_map ks) k = (k \<in> set ks)"
  by (simp add: index_map_def main_map_apply)

lemma len_main_map: "(len_map (main_map ks) > 0) = (ks \<noteq> [])"
  by (simp add: len_map_def dom_main_map card_gt_0_iff)

lemma range_order_main_map: "distinct ks \<Longrightarrow> range_order (main_map ks) ks"
  by (simp add: range_order_def dom_main_map)

lemma fold_append_keys: "fold (\<lambda>k keys. keys @ [k]) ks acc = acc @ ks"
  by (induction ks arbitrary: acc) auto

lemma authRegistries_Join: "authRegistries ks = Join ks '', ''"
  by (simp add: authRegistries_def fold_append_keys)

section \<open>Facts about the plugin\<close>

lemma main_newPlugin_fields:
  assumes "main_newPlugin L host rs ims kr ki = (Some plugin, None)"
  shows "authorizedRegistries plugin = main_map rs"
    and "authorizedImages plugin = main_map ims"
    and "numAuthorizedRegistries plugin = len_map (main_map rs)"
    and "numAuthorizedImages plugin = len_map (main_map ims)"
    and "authRegistriesAsString plugin = Join kr '', ''"
  using assms
  by (auto simp: main_newPlugin_def newPlugin_def Let_def authRegistries_Join
      split: prod.splits option.splits)

lemma candidateImagePath_other:
  assumes "\<not> HasSuffix (Path u) ''/containers/create''"
      and "\<not> HasSuffix (Path u) ''/images/create''"
  shows "candidateImagePath L req u = []"
  using assms by (simp add: candidateImagePath_def)

lemma processRequest_empty:
  assumes "candidateImagePath L req u = []"
  shows "processRequest L req (Some u) = Inr ('''', '''', False)"
  using assms by (simp add: processRequest_def Let_def len_def)

lemma processRequest_empty_image:
  assumes "candidateImagePath L req u = p" and "p \<noteq> []" and "CHR ''/'' \<notin> set p"
  shows "processRequest L req (Some u) = Inr (''library'', '''', True)"
  using assms by (simp add: processRequest_def Let_def len_def Index_absent)

lemma processRequest_slash:
  assumes cand: "candidateImagePath L req u = a @ CHR ''/'' # b"
      and first: "CHR ''/'' \<notin> set a"
  shows "processRequest L req (Some u) = Inr (a, CHR ''/'' # b, True)"
proof -
  let ?p = "a @ CHR ''/'' # b"
  have idx: "Index ?p ''/'' = int (length a)"
    using first by (rule Index_first)
  have nonempty: "len ?p > 0"
    by (simp add: len_def)
  have registry: "slice ?p 0 (int (length a)) = Inr a"
    by (rule slice_prefix)
  have image: "slice ?p (int (length a)) (len ?p) = Inr (CHR ''/'' # b)"
    by (rule slice_rest)
  show ?thesis
    by (simp add: processRequest_def Let_def cand idx nonempty registry image)
qed

text \<open>
  Every string with a \<^verbatim>\<open>/\<close> splits at its first \<^verbatim>\<open>/\<close>, so the three lemmas above cover
  every candidate: once the URL pointer is not \<^verbatim>\<open>nil\<close>, neither slice expression of
  \<^verbatim>\<open>processRequest\<close> is out of range and \<^verbatim>\<open>AuthZReq\<close> returns a response.
\<close>

lemma first_slash_split:
  "CHR ''/'' \<in> set p \<Longrightarrow> \<exists>a b. p = a @ CHR ''/'' # b \<and> CHR ''/'' \<notin> set a"
  by (rule split_list_first)

lemma processRequest_parsed_returns:
  "\<exists>r. processRequest L req (Some u) = Inr r"
proof (cases "candidateImagePath L req u = []")
  case True
  then show ?thesis using processRequest_empty by blast
next
  case nonempty: False
  show ?thesis
  proof (cases "CHR ''/'' \<in> set (candidateImagePath L req u)")
    case True
    then obtain a b where "candidateImagePath L req u = a @ CHR ''/'' # b"
      and "CHR ''/'' \<notin> set a"
      using first_slash_split by blast
    then show ?thesis using processRequest_slash by blast
  next
    case False
    with nonempty show ?thesis using processRequest_empty_image by blast
  qed
qed

lemma AuthZReq_parsed_returns:
  assumes "requestURL L req = Some u"
  shows "\<exists>r. fst (AuthZReq L plugin req lg) = Inr r"
proof -
  obtain reg img b where "processRequest L req (Some u) = Inr (reg, img, b)"
    using processRequest_parsed_returns [of L req u] by (metis prod_cases3)
  with assms show ?thesis
    by (simp add: AuthZReq_def Let_def)
qed

lemma AuthZReq_not_registry:
  assumes "requestURL L req = Some u"
      and "processRequest L req (Some u) = Inr (reg, img, False)"
  shows "fst (AuthZReq L plugin req lg) = Inr \<lparr>Allow = True, Msg = '''', Err = ''''\<rparr>"
  using assms by (simp add: AuthZReq_def)

text \<open>
  When the URI parses and the path of the URL ends with neither suffix, the request is
  allowed whatever the plugin holds.
\<close>

lemma AuthZReq_parsed_other_paths_allowed:
  assumes url: "requestURL L req = Some u"
      and "\<not> HasSuffix (Path u) ''/containers/create''"
      and "\<not> HasSuffix (Path u) ''/images/create''"
  shows "fst (AuthZReq L plugin req lg) = Inr \<lparr>Allow = True, Msg = '''', Err = ''''\<rparr>"
proof -
  have "candidateImagePath L req u = []"
    using assms(2,3) by (rule candidateImagePath_other)
  then have "processRequest L req (Some u) = Inr ('''', '''', False)"
    by (rule processRequest_empty)
  with url show ?thesis by (rule AuthZReq_not_registry)
qed

lemma AuthZReq_registry:
  assumes "requestURL L req = Some u"
      and "processRequest L req (Some u) = Inr (reg, img, True)"
  shows "fst (AuthZReq L plugin req lg) =
         Inr (if \<not> hasAuthorizedRegistries plugin
              then \<lparr>Allow = False, Msg = ''No authorized registries configured'', Err = ''''\<rparr>
              else if \<not> hasAuthorizedImages plugin
              then \<lparr>Allow = False, Msg = ''No authorized images configured'', Err = ''''\<rparr>
              else if index_map (authorizedRegistries plugin) reg
                      \<and> index_map (authorizedImages plugin) img
              then \<lparr>Allow = True, Msg = '''', Err = ''''\<rparr>
              else \<lparr>Allow = False,
                    Msg = ''You can only use docker images from the following authorized registries: ''
                          @ authRegistriesAsString plugin,
                    Err = ''''\<rparr>)"
  using assms by (simp add: AuthZReq_def Let_def)

lemma decision_of_main_plugin:
  assumes built: "main_newPlugin L host rs ims kr ki = (Some plugin, None)"
      and url: "requestURL L req = Some u"
      and classified: "processRequest L req (Some u) = Inr (reg, img, True)"
  shows "fst (AuthZReq L plugin req lg) =
         Inr (if rs = []
              then \<lparr>Allow = False, Msg = ''No authorized registries configured'', Err = ''''\<rparr>
              else if ims = []
              then \<lparr>Allow = False, Msg = ''No authorized images configured'', Err = ''''\<rparr>
              else if reg \<in> set rs \<and> img \<in> set ims
              then \<lparr>Allow = True, Msg = '''', Err = ''''\<rparr>
              else \<lparr>Allow = False,
                    Msg = ''You can only use docker images from the following authorized registries: ''
                          @ Join kr '', '',
                    Err = ''''\<rparr>)"
  by (simp add: AuthZReq_registry [OF url classified] hasAuthorizedRegistries_def
      hasAuthorizedImages_def main_newPlugin_fields [OF built] len_main_map index_main_map)

section \<open>Evaluations in the example environment\<close>

lemma NewClient_docker_sock:
  "NewClient go_stdlib docker_sock = (Some (DockerClient docker_sock), None)"
  by code_simp

lemma main_newPlugin_example:
  "main_newPlugin go_stdlib docker_sock rs ims rs ims = (Some (example_plugin rs ims), None)"
  by (simp add: main_newPlugin_def newPlugin_def Let_def NewClient_docker_sock
      example_plugin_def)

lemma url_ubuntu:
  "requestURL go_stdlib (pull_request ''/v1.40/images/create?fromImage=ubuntu'')
   = Some (create_url ''fromImage=ubuntu'')"
  by code_simp

lemma candidate_ubuntu:
  "candidateImagePath go_stdlib (pull_request ''/v1.40/images/create?fromImage=ubuntu'')
     (create_url ''fromImage=ubuntu'') = ''ubuntu''"
  by code_simp

lemma url_bad_escape:
  "requestURL go_stdlib (pull_request ''/v1.40/images/create?fromImage=%zz'') = None"
  by code_simp

lemma url_myregistry:
  "requestURL go_stdlib
     (pull_request ''/v1.40/images/create?fromImage=myregistry/app:latest'')
   = Some (create_url ''fromImage=myregistry/app:latest'')"
  by code_simp

lemma candidate_myregistry:
  "candidateImagePath go_stdlib
     (pull_request ''/v1.40/images/create?fromImage=myregistry/app:latest'')
     (create_url ''fromImage=myregistry/app:latest'') = ''myregistry/app:latest''"
  by code_simp

lemma url_evil:
  "requestURL go_stdlib (pull_request ''/v1.40/images/create?fromImage=evil.com/bad'')
   = Some (create_url ''fromImage=evil.com/bad'')"
  by code_simp

lemma candidate_evil:
  "candidateImagePath go_stdlib (pull_request ''/v1.40/images/create?fromImage=evil.com/bad'')
     (create_url ''fromImage=evil.com/bad'') = ''evil.com/bad''"
  by code_simp

lemma url_rooted:
  "requestURL go_stdlib (pull_request ''/v1.40/images/create?fromImage=/app'')
   = Some (create_url ''fromImage=/app'')"
  by code_simp

lemma candidate_rooted:
  "candidateImagePath go_stdlib (pull_request ''/v1.40/images/create?fromImage=/app'')
     (create_url ''fromImage=/app'') = ''/app''"
  by code_simp

lemma url_list:
  "requestURL go_stdlib list_request
   = Some \<lparr>Path = ''/v1.40/containers/list'', RawQuery = ''''\<rparr>"
  by code_simp

lemma list_no_suffix:
  "\<not> HasSuffix ''/v1.40/containers/list'' ''/containers/create''"
  "\<not> HasSuffix ''/v1.40/containers/list'' ''/images/create''"
  by code_simp+

lemma AuthZReq_list_request_allowed:
  "fst (AuthZReq go_stdlib (example_plugin [] []) list_request [])
     = Inr \<lparr>Allow = True, Msg = '''', Err = ''''\<rparr>"
  using AuthZReq_parsed_other_paths_allowed [OF url_list, where plugin = "example_plugin [] []"
      and lg = "[]"] list_no_suffix
  by simp

lemma main_newPlugin_ranged:
  "main_newPlugin go_stdlib docker_sock rs ims kr ki = (Some (ranged_plugin rs ims kr ki), None)"
  by (simp add: main_newPlugin_def newPlugin_def Let_def NewClient_docker_sock
      ranged_plugin_def)

lemma url_bad_filters: "requestURL go_stdlib filters_request = None"
  by code_simp

lemma raw_path_filters:
  "fst (Cut (RequestURI filters_request) CHR ''?'') = ''/v1.40/containers/json''"
  by code_simp

lemma json_no_suffix:
  "\<not> HasSuffix ''/v1.40/containers/json'' ''/containers/create''"
  "\<not> HasSuffix ''/v1.40/containers/json'' ''/images/create''"
  by code_simp+


section \<open>The claims\<close>

text \<open>
  Claim C1. For every non-empty candidate image path without a \<^verbatim>\<open>/\<close>, the claim has
  \<^verbatim>\<open>processRequest\<close> return the registry \<^verbatim>\<open>library\<close>, the whole candidate as the image,
  and \<^verbatim>\<open>true\<close>. The code assigns \<^verbatim>\<open>image\<close> only inside \<^verbatim>\<open>if idx != -1\<close>: without a
  \<^verbatim>\<open>/\<close> the registry is \<^verbatim>\<open>library\<close> and the flag is \<^verbatim>\<open>true\<close>, but the image is
  the empty string, not the candidate.
\<close>

theorem processRequest_no_slash:
  assumes "candidateImagePath L req u = p" and "p \<noteq> []" and "CHR ''/'' \<notin> set p"
  shows "processRequest L req (Some u) = Inr (''library'', '''', True)"
  using assms by (rule processRequest_empty_image)

theorem processRequest_no_slash_witness:
  "candidateImagePath go_stdlib (pull_request ''/v1.40/images/create?fromImage=ubuntu'')
     (create_url ''fromImage=ubuntu'') = ''ubuntu''
   \<and> ''ubuntu'' \<noteq> [] \<and> CHR ''/'' \<notin> set ''ubuntu''
   \<and> processRequest go_stdlib (pull_request ''/v1.40/images/create?fromImage=ubuntu'')
       (Some (create_url ''fromImage=ubuntu'')) = Inr (''library'', '''', True)"
  using processRequest_no_slash [OF candidate_ubuntu] candidate_ubuntu by simp

text \<open>
  Claim C2. The claim has a request whose URI cannot be unescaped or parsed classified as
  not a registry operation and allowed, with no fault. The code discards the error of
  \<^verbatim>\<open>ParseRequestURI\<close> and reads \<^verbatim>\<open>reqURL.Path\<close>: whenever the pointer returned is
  \<^verbatim>\<open>nil\<close>, \<^verbatim>\<open>AuthZReq\<close> panics, returns no response and writes no log line.
\<close>

theorem AuthZReq_nil_URL_panics:
  assumes "requestURL L req = None"
  shows "AuthZReq L plugin req lg = (Inl NilPointerDereference, lg)"
  using assms by (simp add: AuthZReq_def processRequest_def)

theorem AuthZReq_nil_URL_panics_witness:
  "requestURL go_stdlib (pull_request ''/v1.40/images/create?fromImage=%zz'') = None
   \<and> AuthZReq go_stdlib (example_plugin [''library''] [''ubuntu''])
       (pull_request ''/v1.40/images/create?fromImage=%zz'') []
     = (Inl NilPointerDereference, [])"
  using AuthZReq_nil_URL_panics [OF url_bad_escape] url_bad_escape by simp

text \<open>
  Claim C3 (scenario B). For the request target
  \<^verbatim>\<open>/v1.40/images/create?fromImage=ubuntu\<close> and the policy with registries
  \<^verbatim>\<open>{library}\<close> and images \<^verbatim>\<open>{ubuntu}\<close>, the claim has the image derived as
  \<^verbatim>\<open>ubuntu\<close> and the request allowed. The code derives the registry \<^verbatim>\<open>library\<close> and the
  empty image, which is not in the image whitelist, and denies the request.
\<close>

theorem AuthZReq_scenario_B_denied:
  "main_newPlugin go_stdlib docker_sock [''library''] [''ubuntu''] [''library''] [''ubuntu'']
     = (Some (example_plugin [''library''] [''ubuntu'']), None)
   \<and> requestURL go_stdlib (pull_request ''/v1.40/images/create?fromImage=ubuntu'')
     = Some (create_url ''fromImage=ubuntu'')
   \<and> processRequest go_stdlib (pull_request ''/v1.40/images/create?fromImage=ubuntu'')
       (Some (create_url ''fromImage=ubuntu'')) = Inr (''library'', '''', True)
   \<and> fst (AuthZReq go_stdlib (example_plugin [''library''] [''ubuntu''])
            (pull_request ''/v1.40/images/create?fromImage=ubuntu'') [])
     = Inr \<lparr>Allow = False,
            Msg = ''You can only use docker images from the following authorized registries: library'',
            Err = ''''\<rparr>"
proof -
  have built:
    "main_newPlugin go_stdlib docker_sock [''library''] [''ubuntu''] [''library''] [''ubuntu'']
     = (Some (example_plugin [''library''] [''ubuntu'']), None)"
    by (rule main_newPlugin_example)
  have classified:
    "processRequest go_stdlib (pull_request ''/v1.40/images/create?fromImage=ubuntu'')
       (Some (create_url ''fromImage=ubuntu'')) = Inr (''library'', '''', True)"
    using processRequest_empty_image [OF candidate_ubuntu] by simp
  have "fst (AuthZReq go_stdlib (example_plugin [''library''] [''ubuntu''])
            (pull_request ''/v1.40/images/create?fromImage=ubuntu'') [])
     = Inr \<lparr>Allow = False,
            Msg = ''You can only use docker images from the following authorized registries: library'',
            Err = ''''\<rparr>"
    using decision_of_main_plugin [OF built url_ubuntu classified, where lg = "[]"]
    by simp
  with built url_ubuntu classified show ?thesis by simp
qed

text \<open>
  Claim C4. The plugin is the one \<^verbatim>\<open>main\<close> builds from the registry flags \<open>rs\<close> and the
  image flags \<open>ims\<close>, both non-empty, and \<open>kr\<close> is the order in which \<^verbatim>\<open>authRegistries\<close>
  visited the registries. For every request classified as a registry operation with
  registry \<open>reg\<close> and image \<open>img\<close>, the decision is Allow exactly when \<open>reg\<close> is among the
  registries and \<open>img\<close> among the images. Otherwise it is Deny, and the message is the
  fixed sentence followed by the first registry of \<open>kr\<close> and then every other registry
  of \<open>kr\<close> with a comma and a space in front; \<open>kr\<close> is not empty and holds every
  registry of \<open>rs\<close> exactly once.
\<close>

theorem AuthZReq_whitelist_decision:
  assumes built: "main_newPlugin L host rs ims kr ki = (Some plugin, None)"
      and order: "range_order (main_map rs) kr"
      and registries: "rs \<noteq> []"
      and images: "ims \<noteq> []"
      and url: "requestURL L req = Some u"
      and classified: "processRequest L req (Some u) = Inr (reg, img, True)"
  shows "fst (AuthZReq L plugin req lg) =
           Inr (if reg \<in> set rs \<and> img \<in> set ims
                then \<lparr>Allow = True, Msg = '''', Err = ''''\<rparr>
                else \<lparr>Allow = False,
                      Msg = ''You can only use docker images from the following authorized registries: ''
                            @ hd kr @ concat (map (\<lambda>k. '', '' @ k) (tl kr)),
                      Err = ''''\<rparr>)
         \<and> kr \<noteq> [] \<and> distinct kr \<and> set kr = set rs"
proof -
  have enum: "distinct kr \<and> set kr = set rs"
    using order by (simp add: range_order_def dom_main_map)
  with registries have nonempty: "kr \<noteq> []"
    by auto
  then obtain k ks where kr: "kr = k # ks"
    by (cases kr) auto
  have joined: "Join kr '', '' = hd kr @ concat (map (\<lambda>k. '', '' @ k) (tl kr))"
    unfolding kr by (simp add: Join_concat)
  have decision: "fst (AuthZReq L plugin req lg) =
           Inr (if reg \<in> set rs \<and> img \<in> set ims
                then \<lparr>Allow = True, Msg = '''', Err = ''''\<rparr>
                else \<lparr>Allow = False,
                      Msg = ''You can only use docker images from the following authorized registries: ''
                            @ Join kr '', '',
                      Err = ''''\<rparr>)"
    using registries images
    by (simp add: decision_of_main_plugin [OF built url classified])
  show ?thesis
    unfolding decision joined using enum nonempty by blast
qed

theorem AuthZReq_whitelist_decision_witness:
  "main_newPlugin go_stdlib docker_sock [''myregistry'', ''library''] [''/app:latest'']
       [''library'', ''myregistry''] [''/app:latest'']
     = (Some (ranged_plugin [''myregistry'', ''library''] [''/app:latest'']
               [''library'', ''myregistry''] [''/app:latest'']), None)
   \<and> range_order (main_map [''myregistry'', ''library'']) [''library'', ''myregistry'']
   \<and> requestURL go_stdlib
       (pull_request ''/v1.40/images/create?fromImage=myregistry/app:latest'')
     = Some (create_url ''fromImage=myregistry/app:latest'')
   \<and> processRequest go_stdlib
       (pull_request ''/v1.40/images/create?fromImage=myregistry/app:latest'')
       (Some (create_url ''fromImage=myregistry/app:latest''))
     = Inr (''myregistry'', ''/app:latest'', True)
   \<and> fst (AuthZReq go_stdlib
            (ranged_plugin [''myregistry'', ''library''] [''/app:latest'']
               [''library'', ''myregistry''] [''/app:latest''])
            (pull_request ''/v1.40/images/create?fromImage=myregistry/app:latest'') [])
     = Inr \<lparr>Allow = True, Msg = '''', Err = ''''\<rparr>
   \<and> processRequest go_stdlib
       (pull_request ''/v1.40/images/create?fromImage=evil.com/bad'')
       (Some (create_url ''fromImage=evil.com/bad''))
     = Inr (''evil.com'', ''/bad'', True)
   \<and> fst (AuthZReq go_stdlib
            (ranged_plugin [''myregistry'', ''library''] [''/app:latest'']
               [''library'', ''myregistry''] [''/app:latest''])
            (pull_request ''/v1.40/images/create?fromImage=evil.com/bad'') [])
     = Inr \<lparr>Allow = False,
            Msg = ''You can only use docker images from the following authorized registries: library, myregistry'',
            Err = ''''\<rparr>"
proof -
  have built:
    "main_newPlugin go_stdlib docker_sock [''myregistry'', ''library''] [''/app:latest'']
       [''library'', ''myregistry''] [''/app:latest'']
     = (Some (ranged_plugin [''myregistry'', ''library''] [''/app:latest'']
               [''library'', ''myregistry''] [''/app:latest'']), None)"
    by (rule main_newPlugin_ranged)
  have order:
    "range_order (main_map [''myregistry'', ''library'']) [''library'', ''myregistry'']"
    by (auto simp: range_order_def dom_main_map)
  have good:
    "processRequest go_stdlib
       (pull_request ''/v1.40/images/create?fromImage=myregistry/app:latest'')
       (Some (create_url ''fromImage=myregistry/app:latest''))
     = Inr (''myregistry'', ''/app:latest'', True)"
    using processRequest_slash [where a = "''myregistry''" and b = "''app:latest''"]
      candidate_myregistry by simp
  have bad:
    "processRequest go_stdlib
       (pull_request ''/v1.40/images/create?fromImage=evil.com/bad'')
       (Some (create_url ''fromImage=evil.com/bad''))
     = Inr (''evil.com'', ''/bad'', True)"
    using processRequest_slash [where a = "''evil.com''" and b = "''bad''"]
      candidate_evil by simp
  have nonempty: "[''myregistry'', ''library''] \<noteq> []" "[''/app:latest''] \<noteq> []"
    by simp_all
  show ?thesis
    using AuthZReq_whitelist_decision [OF built order nonempty url_myregistry good,
        where lg = "[]"]
      AuthZReq_whitelist_decision [OF built order nonempty url_evil bad, where lg = "[]"]
      built order url_myregistry good bad
    by simp
qed

text \<open>
  Claim C5. The plugin is the one \<^verbatim>\<open>main\<close> builds from the registry flags \<open>rs\<close> and the
  image flags \<open>ims\<close>. For every request classified as a registry operation, if either
  list is empty the decision is Deny: with \<^verbatim>\<open>No authorized registries configured\<close> when
  there is no registry (tested first), else with \<^verbatim>\<open>No authorized images configured\<close>,
  whatever the other list and the derived registry and image are.
\<close>

theorem AuthZReq_empty_whitelist:
  assumes built: "main_newPlugin L host rs ims kr ki = (Some plugin, None)"
      and url: "requestURL L req = Some u"
      and classified: "processRequest L req (Some u) = Inr (reg, img, True)"
      and empty: "rs = [] \<or> ims = []"
  shows "fst (AuthZReq L plugin req lg) =
           Inr \<lparr>Allow = False,
                Msg = (if rs = [] then ''No authorized registries configured''
                       else ''No authorized images configured''),
                Err = ''''\<rparr>"
  using empty by (auto simp: decision_of_main_plugin [OF built url classified])

theorem AuthZReq_empty_whitelist_witness:
  "main_newPlugin go_stdlib docker_sock [] [''/app:latest''] [] [''/app:latest'']
     = (Some (example_plugin [] [''/app:latest'']), None)
   \<and> main_newPlugin go_stdlib docker_sock [''myregistry''] [] [''myregistry''] []
     = (Some (example_plugin [''myregistry''] []), None)
   \<and> requestURL go_stdlib
       (pull_request ''/v1.40/images/create?fromImage=myregistry/app:latest'')
     = Some (create_url ''fromImage=myregistry/app:latest'')
   \<and> processRequest go_stdlib
       (pull_request ''/v1.40/images/create?fromImage=myregistry/app:latest'')
       (Some (create_url ''fromImage=myregistry/app:latest''))
     = Inr (''myregistry'', ''/app:latest'', True)
   \<and> fst (AuthZReq go_stdlib (example_plugin [] [''/app:latest''])
            (pull_request ''/v1.40/images/create?fromImage=myregistry/app:latest'') [])
     = Inr \<lparr>Allow = False, Msg = ''No authorized registries configured'', Err = ''''\<rparr>
   \<and> fst (AuthZReq go_stdlib (example_plugin [''myregistry''] [])
            (pull_request ''/v1.40/images/create?fromImage=myregistry/app:latest'') [])
     = Inr \<lparr>Allow = False, Msg = ''No authorized images configured'', Err = ''''\<rparr>"
proof -
  have no_registries:
    "main_newPlugin go_stdlib docker_sock [] [''/app:latest''] [] [''/app:latest'']
     = (Some (example_plugin [] [''/app:latest'']), None)"
    by (rule main_newPlugin_example)
  have no_images:
    "main_newPlugin go_stdlib docker_sock [''myregistry''] [] [''myregistry''] []
     = (Some (example_plugin [''myregistry''] []), None)"
    by (rule main_newPlugin_example)
  have classified:
    "processRequest go_stdlib
       (pull_request ''/v1.40/images/create?fromImage=myregistry/app:latest'')
       (Some (create_url ''fromImage=myregistry/app:latest''))
     = Inr (''myregistry'', ''/app:latest'', True)"
    using processRequest_slash [where a = "''myregistry''" and b = "''app:latest''"]
      candidate_myregistry by simp
  have e1: "([] :: string list) = [] \<or> [''/app:latest''] = []"
    by simp
  have e2: "[''myregistry''] = [] \<or> ([] :: string list) = []"
    by simp
  show ?thesis
    using AuthZReq_empty_whitelist [OF no_registries url_myregistry classified e1,
        where lg = "[]"]
      AuthZReq_empty_whitelist [OF no_images url_myregistry classified e2, where lg = "[]"]
      no_registries no_images url_myregistry classified
    by simp
qed

text \<open>
  Claim C6. For every candidate image path with a \<^verbatim>\<open>/\<close>, written as \<open>a\<close>, the first
  \<^verbatim>\<open>/\<close>, and \<open>b\<close> (so the first \<^verbatim>\<open>/\<close> is at position \<open>length a\<close>, any position),
  \<^verbatim>\<open>processRequest\<close> returns the registry \<open>a\<close>, the part before the first \<^verbatim>\<open>/\<close>, and
  the image \<^verbatim>\<open>/\<close>\<open>b\<close>, the part from that \<^verbatim>\<open>/\<close> on, with \<^verbatim>\<open>true\<close>.
\<close>

theorem processRequest_splits_at_first_slash:
  assumes "candidateImagePath L req u = a @ CHR ''/'' # b"
      and "CHR ''/'' \<notin> set a"
  shows "processRequest L req (Some u) = Inr (a, CHR ''/'' # b, True)"
  using assms by (rule processRequest_slash)

theorem processRequest_splits_at_first_slash_witness:
  "candidateImagePath go_stdlib
     (pull_request ''/v1.40/images/create?fromImage=myregistry/app:latest'')
     (create_url ''fromImage=myregistry/app:latest'') = ''myregistry'' @ CHR ''/'' # ''app:latest''
   \<and> CHR ''/'' \<notin> set ''myregistry''
   \<and> processRequest go_stdlib
       (pull_request ''/v1.40/images/create?fromImage=myregistry/app:latest'')
       (Some (create_url ''fromImage=myregistry/app:latest''))
     = Inr (''myregistry'', ''/app:latest'', True)"
  using processRequest_splits_at_first_slash
      [where a = "''myregistry''" and b = "''app:latest''" and L = go_stdlib
        and req = "pull_request ''/v1.40/images/create?fromImage=myregistry/app:latest''"
        and u = "create_url ''fromImage=myregistry/app:latest''"]
    candidate_myregistry
  by simp

text \<open>
  Claim C7. The claim has \<^verbatim>\<open>AuthZReq\<close> return Allow for every request whose path ends
  neither with \<^verbatim>\<open>/containers/create\<close> nor with \<^verbatim>\<open>/images/create\<close>, whatever the plugin
  holds. That holds when the URI parses (\<open>AuthZReq_parsed_other_paths_allowed\<close>). It
  fails for a request whose URI does not parse: the target
  \<^verbatim>\<open>/v1.40/containers/json?filters=%zz\<close> has the path \<^verbatim>\<open>/v1.40/containers/json\<close>, which
  ends with neither suffix, but its query does not unescape, the URL pointer is \<^verbatim>\<open>nil\<close>,
  and \<^verbatim>\<open>AuthZReq\<close> panics before any suffix is tested, returning no response.
\<close>

theorem AuthZReq_other_path_unparsed_panics:
  "fst (Cut (RequestURI filters_request) CHR ''?'') = ''/v1.40/containers/json''
   \<and> \<not> HasSuffix ''/v1.40/containers/json'' ''/containers/create''
   \<and> \<not> HasSuffix ''/v1.40/containers/json'' ''/images/create''
   \<and> requestURL go_stdlib filters_request = None
   \<and> AuthZReq go_stdlib (example_plugin [''library''] [''ubuntu'']) filters_request []
     = (Inl NilPointerDereference, [])"
  using raw_path_filters json_no_suffix url_bad_filters
  by (simp add: AuthZReq_def processRequest_def)

text \<open>
  Claim C8. \<^verbatim>\<open>AuthZRes\<close> returns Allow for every request and every plugin.
\<close>

theorem AuthZRes_allows: "AuthZRes plugin req = \<lparr>Allow = True, Msg = '''', Err = ''''\<rparr>"
  by (simp add: AuthZRes_def)

text \<open>
  Claim C9. The only state \<^verbatim>\<open>AuthZReq\<close> touches is the log, which it extends. The
  decision does not depend on the log: two evaluations with the same plugin and request
  give the same outcome (the same Allow flag and message), whatever was logged before,
  and in particular when the second runs in the state the first left.
\<close>

theorem AuthZReq_deterministic:
  "fst (AuthZReq L plugin req lg) = fst (AuthZReq L plugin req lg')
   \<and> fst (AuthZReq L plugin req (snd (AuthZReq L plugin req lg)))
     = fst (AuthZReq L plugin req lg)"
proof -
  have indep: "fst (AuthZReq L plugin req l1) = fst (AuthZReq L plugin req l2)" for l1 l2
    by (auto simp: AuthZReq_def Let_def split: sum.splits option.splits prod.splits)
  show ?thesis
    using indep [of lg lg'] indep [of "snd (AuthZReq L plugin req lg)" lg] by simp
qed

text \<open>
  Claim C10. For every candidate image path that begins with \<^verbatim>\<open>/\<close>, \<^verbatim>\<open>processRequest\<close>
  returns the empty registry and the whole candidate as the image; and when the plugin
  is the one \<^verbatim>\<open>main\<close> builds from the registry flags \<open>rs\<close>, such a request is allowed
  only if the empty string is one of \<open>rs\<close>.
\<close>

theorem processRequest_leading_slash:
  assumes cand: "candidateImagePath L req u = CHR ''/'' # b"
      and built: "main_newPlugin L host rs ims kr ki = (Some plugin, None)"
      and url: "requestURL L req = Some u"
  shows "processRequest L req (Some u) = Inr ('''', CHR ''/'' # b, True)
         \<and> (\<forall>r. fst (AuthZReq L plugin req lg) = Inr r \<longrightarrow> Allow r \<longrightarrow> '''' \<in> set rs)"
proof -
  have classified: "processRequest L req (Some u) = Inr ('''', CHR ''/'' # b, True)"
    using processRequest_slash [of L req u "[]" b] cand by simp
  have "'''' \<in> set rs" if "fst (AuthZReq L plugin req lg) = Inr r" and "Allow r" for r
    using that
    by (auto simp: decision_of_main_plugin [OF built url classified] split: if_splits)
  with classified show ?thesis by blast
qed

theorem processRequest_leading_slash_witness:
  "candidateImagePath go_stdlib (pull_request ''/v1.40/images/create?fromImage=/app'')
     (create_url ''fromImage=/app'') = CHR ''/'' # ''app''
   \<and> main_newPlugin go_stdlib docker_sock [''''] [''/app''] [''''] [''/app'']
     = (Some (example_plugin [''''] [''/app'']), None)
   \<and> requestURL go_stdlib (pull_request ''/v1.40/images/create?fromImage=/app'')
     = Some (create_url ''fromImage=/app'')
   \<and> processRequest go_stdlib (pull_request ''/v1.40/images/create?fromImage=/app'')
       (Some (create_url ''fromImage=/app'')) = Inr ('''', ''/app'', True)
   \<and> fst (AuthZReq go_stdlib (example_plugin [''''] [''/app''])
            (pull_request ''/v1.40/images/create?fromImage=/app'') [])
     = Inr \<lparr>Allow = True, Msg = '''', Err = ''''\<rparr>
   \<and> '''' \<in> set ['''']"
proof -
  have cand:
    "candidateImagePath go_stdlib (pull_request ''/v1.40/images/create?fromImage=/app'')
       (create_url ''fromImage=/app'') = CHR ''/'' # ''app''"
    using candidate_rooted by simp
  have built:
    "main_newPlugin go_stdlib docker_sock [''''] [''/app''] [''''] [''/app'']
     = (Some (example_plugin [''''] [''/app'']), None)"
    by (rule main_newPlugin_example)
  note main = processRequest_leading_slash [OF cand built url_rooted, where lg = "[]"]
  have classified:
    "processRequest go_stdlib (pull_request ''/v1.40/images/create?fromImage=/app'')
       (Some (create_url ''fromImage=/app'')) = Inr ('''', ''/app'', True)"
    using main by simp
  have allowed:
    "fst (AuthZReq go_stdlib (example_plugin [''''] [''/app''])
            (pull_request ''/v1.40/images/create?fromImage=/app'') [])
     = Inr \<lparr>Allow = True, Msg = '''', Err = ''''\<rparr>"
    using decision_of_main_plugin [OF built url_rooted classified, where lg = "[]"]
    by simp
  have "'''' \<in> set ['''']"
    using main allowed by simp
  with cand built url_rooted classified allowed show ?thesis by simp
qed

end
